theory Spec2Isabelle
  imports Main "HOL-Library.Multiset" "HOL-Library.List_Lexorder" "HOL-Library.Char_ord"
    "HOL-Library.Product_Lexorder"
begin

section \<open>Announcements endpoints: the values the code handles\<close>

text \<open>
  The module \<^verbatim>\<open>backend/routers/announcements.py\<close> holds five endpoint handlers and one
  serialization helper. They work on Python dicts read from and written to two document
  collections, on Python \<^verbatim>\<open>datetime\<close> values and on BSON object identifiers.

  A \<^verbatim>\<open>datetime\<close> is either naive (no time zone) or aware; the number is its position on
  the time line in microseconds (for an aware value, the UTC instant). Python orders two
  naive or two aware values and raises \<^verbatim>\<open>TypeError\<close> on a mixed pair: \<open>dt_ge\<close> is
  \<^verbatim>\<open>a >= b\<close>, with \<open>None\<close> for the \<^verbatim>\<open>TypeError\<close>.
\<close>

datatype datetime = Naive int | Aware int

fun dt_ge :: "datetime \<Rightarrow> datetime \<Rightarrow> bool option" where
  "dt_ge (Naive a) (Naive b) = Some (b \<le> a)"
| "dt_ge (Aware a) (Aware b) = Some (b \<le> a)"
| "dt_ge (Naive a) (Aware b) = None"
| "dt_ge (Aware a) (Naive b) = None"

text \<open>\<open>dt_lt\<close> is \<^verbatim>\<open>a < b\<close> on the same terms; the invariant of the data model is stated with it.\<close>

fun dt_lt :: "datetime \<Rightarrow> datetime \<Rightarrow> bool option" where
  "dt_lt (Naive a) (Naive b) = Some (a < b)"
| "dt_lt (Aware a) (Aware b) = Some (a < b)"
| "dt_lt (Naive a) (Aware b) = None"
| "dt_lt (Aware a) (Naive b) = None"

text \<open>
  The position of a date on the time line. \<^verbatim>\<open>datetime.utcnow()\<close> returns a naive value
  that stands for a UTC time, and the driver reads a naive value as UTC.
\<close>

fun instant :: "datetime \<Rightarrow> int" where
  "instant (Naive n) = n"
| "instant (Aware n) = n"

text \<open>
  The values a stored document holds: text, an object identifier (the 12-byte value as a
  number), or a date. A document is a dict from field names to values.
\<close>

datatype objectid = Oid nat

datatype bson = Str string | ObjId objectid | Date datetime

type_synonym document = "string \<rightharpoonup> bson"

text \<open>
  Python truthiness of what \<^verbatim>\<open>dict.get\<close> returns: \<^verbatim>\<open>None\<close> and the empty string are
  false, every other value here is true.
\<close>

fun truthy :: "bson option \<Rightarrow> bool" where
  "truthy None = False"
| "truthy (Some (Str s)) = (s \<noteq> [])"
| "truthy (Some (ObjId i)) = True"
| "truthy (Some (Date t)) = True"

text \<open>\<^verbatim>\<open>s.replace('Z', '+00:00')\<close>: every occurrence of the character is replaced.\<close>

fun str_replace :: "char \<Rightarrow> string \<Rightarrow> string \<Rightarrow> string" where
  "str_replace old new [] = []"
| "str_replace old new (c # cs) =
     (if c = old then new @ str_replace old new cs else c # str_replace old new cs)"

section \<open>The external collaborators\<close>

text \<open>
  The handlers call into the Python library, the BSON library and the storage engine.
  What these compute is not code of this module, so it is a parameter of the model:
  \<^item> \<open>fromisoformat\<close>: \<^verbatim>\<open>datetime.fromisoformat\<close>, \<open>None\<close> for its \<^verbatim>\<open>ValueError\<close>;
  \<^item> \<open>isoformat\<close>: \<^verbatim>\<open>datetime.isoformat\<close>;
  \<^item> \<open>ObjectId\<close>: \<^verbatim>\<open>bson.ObjectId(s)\<close> on a string, \<open>None\<close> when it raises;
  \<^item> \<open>str_ObjectId\<close>: \<^verbatim>\<open>str\<close> of an object identifier;
  \<^item> \<open>bson_compare\<close>: how the storage engine's range operators order a stored value
    against a date operand, \<open>None\<close> when the engine does not order the two;
  \<^item> \<open>bson_sort_key\<close>: the position of a field value (or of a missing field) in the
    storage engine's sort order.
\<close>

datatype comparison = Less | Equal | Greater

record 'k env =
  fromisoformat :: "string \<Rightarrow> datetime option"
  isoformat :: "datetime \<Rightarrow> string"
  ObjectId :: "string \<Rightarrow> objectid option"
  str_ObjectId :: "objectid \<Rightarrow> string"
  bson_compare :: "bson \<Rightarrow> datetime \<Rightarrow> comparison option"
  bson_sort_key :: "bson option \<Rightarrow> 'k"

text \<open>\<^verbatim>\<open>datetime.fromisoformat(s.replace('Z', '+00:00'))\<close>, as every handler parses a date.\<close>

definition parse_date :: "'k env \<Rightarrow> string \<Rightarrow> datetime option" where
  "parse_date env s = fromisoformat env (str_replace (CHR ''Z'') ''+00:00'' s)"

section \<open>The document store\<close>

text \<open>
  The two module-level collection handles are the state. A collection is the list of its
  documents in insertion order.
\<close>

record db =
  announcements_collection :: "document list"
  teachers_collection :: "document list"

text \<open>The filters the handlers build, and when a document matches one.\<close>

datatype cond = Exists bool | Lte datetime | Gte datetime | Eq bson

datatype query = Empty | Field string cond | And "query list" | Or "query list"

fun matches_cond :: "'k env \<Rightarrow> bson option \<Rightarrow> cond \<Rightarrow> bool" where
  "matches_cond env v (Exists b) = ((v \<noteq> None) = b)"
| "matches_cond env None (Lte t) = False"
| "matches_cond env (Some x) (Lte t) =
     (bson_compare env x t = Some Less \<or> bson_compare env x t = Some Equal)"
| "matches_cond env None (Gte t) = False"
| "matches_cond env (Some x) (Gte t) =
     (bson_compare env x t = Some Greater \<or> bson_compare env x t = Some Equal)"
| "matches_cond env v (Eq x) = (v = Some x)"

fun matches :: "'k env \<Rightarrow> document \<Rightarrow> query \<Rightarrow> bool" where
  "matches env d Empty = True"
| "matches env d (Field f c) = matches_cond env (d f) c"
| "matches env d (And qs) = list_all (matches env d) qs"
| "matches env d (Or qs) = list_ex (matches env d) qs"

definition find_docs :: "'k env \<Rightarrow> document list \<Rightarrow> query \<Rightarrow> document list" where
  "find_docs env docs q = filter (\<lambda>d. matches env d q) docs"

definition find_one :: "'k env \<Rightarrow> document list \<Rightarrow> query \<Rightarrow> document option" where
  "find_one env docs q = List.find (\<lambda>d. matches env d q) docs"

text \<open>
  \<^verbatim>\<open>cursor.sort(field, -1)\<close>: descending in the engine's sort order. The order among
  documents with equal keys is the engine's choice; nothing below depends on it.
\<close>

definition sort_descending :: "('k::linorder) env \<Rightarrow> string \<Rightarrow> document list \<Rightarrow> document list" where
  "sort_descending env field docs = rev (sort_key (\<lambda>d. bson_sort_key env (d field)) docs)"

text \<open>
  \<^verbatim>\<open>insert_one\<close>: the driver generates the identifier (here the argument \<open>new_id\<close>),
  adds it to the dict it was given as \<^verbatim>\<open>_id\<close> and stores the dict. An identifier that
  is already in use is refused (\<open>None\<close>, the driver's duplicate-key error).
\<close>

definition insert_one :: "document list \<Rightarrow> document \<Rightarrow> objectid \<Rightarrow> document list option" where
  "insert_one docs d new_id =
     (if list_ex (\<lambda>x. x ''_id'' = Some (ObjId new_id)) docs then None
      else Some (docs @ [d(''_id'' \<mapsto> ObjId new_id)]))"

datatype update = Set "(string \<times> bson) list" | Unset "string list"

fun apply_update :: "update \<Rightarrow> document \<Rightarrow> document" where
  "apply_update (Set kvs) d = fold (\<lambda>(k, v) d. d(k \<mapsto> v)) kvs d"
| "apply_update (Unset ks) d = fold (\<lambda>k d. d(k := None)) ks d"

text \<open>\<^verbatim>\<open>update_one\<close> changes the first document that matches, \<^verbatim>\<open>delete_one\<close> removes it.\<close>

fun update_one :: "'k env \<Rightarrow> document list \<Rightarrow> query \<Rightarrow> update \<Rightarrow> document list" where
  "update_one env [] q u = []"
| "update_one env (d # ds) q u =
     (if matches env d q then apply_update u d # ds else d # update_one env ds q u)"

text \<open>The second component is \<^verbatim>\<open>deleted_count\<close>.\<close>

fun delete_one :: "'k env \<Rightarrow> document list \<Rightarrow> query \<Rightarrow> document list \<times> nat" where
  "delete_one env [] q = ([], 0)"
| "delete_one env (d # ds) q =
     (if matches env d q then (ds, 1)
      else (case delete_one env ds q of (ds', n) \<Rightarrow> (d # ds', n)))"

section \<open>The handlers\<close>

text \<open>
  Each \<^verbatim>\<open>HTTPException\<close> the handlers raise, by the name the specification gives it:
  \<open>Unauthorized\<close> is status 401, \<open>NotFound\<close> 404, the three others 400. \<open>Unhandled\<close> is
  an exception no handler catches.
\<close>

datatype error =
  Unauthorized | InvalidIdentifier | NotFound | InvalidDate | InvalidDateOrder | Unhandled

definition serialize_announcement :: "'k env \<Rightarrow> document \<Rightarrow> document" where
  "serialize_announcement env announcement =
     (case announcement ''_id'' of
        Some (ObjId i) \<Rightarrow> (announcement(''id'' \<mapsto> Str (str_ObjectId env i)))(''_id'' := None)
      | _ \<Rightarrow> announcement)"

definition active_query :: "datetime \<Rightarrow> query" where
  "active_query now =
     And [Or [Field ''start_date'' (Exists False), Field ''start_date'' (Lte now)],
          Field ''expiration_date'' (Gte now)]"

text \<open>\<open>now\<close> is what \<^verbatim>\<open>datetime.utcnow()\<close> returns during the call.\<close>

definition get_announcements :: "('k::linorder) env \<Rightarrow> db \<Rightarrow> bool \<Rightarrow> datetime \<Rightarrow> document list" where
  "get_announcements env st active_only now =
     (let query = (if active_only then active_query now else Empty)
      in map (serialize_announcement env)
           (sort_descending env ''created_at''
              (find_docs env (announcements_collection st) query)))"

definition by_id :: "objectid \<Rightarrow> query" where
  "by_id i = Field ''_id'' (Eq (ObjId i))"

definition find_teacher :: "'k env \<Rightarrow> db \<Rightarrow> string \<Rightarrow> document option" where
  "find_teacher env st teacher_username =
     find_one env (teachers_collection st) (Field ''_id'' (Eq (Str teacher_username)))"

definition get_announcement :: "'k env \<Rightarrow> db \<Rightarrow> string \<Rightarrow> error + document" where
  "get_announcement env st announcement_id =
     (case ObjectId env announcement_id of
        None \<Rightarrow> Inl InvalidIdentifier
      | Some i \<Rightarrow>
          (case find_one env (announcements_collection st) (by_id i) of
             None \<Rightarrow> Inl NotFound
           | Some announcement \<Rightarrow> Inr (serialize_announcement env announcement)))"

text \<open>
  The \<^verbatim>\<open>try\<close> block of \<^verbatim>\<open>create_announcement\<close>: the expiration date is parsed first;
  the start date is looked at only when it is a non-empty string (\<^verbatim>\<open>if start_date:\<close>).
  \<open>None\<close> means the block raised nothing.
\<close>

definition validate_dates :: "'k env \<Rightarrow> string \<Rightarrow> string option \<Rightarrow> error option" where
  "validate_dates env expiration_date start_date =
     (case parse_date env expiration_date of
        None \<Rightarrow> Some InvalidDate
      | Some exp_date \<Rightarrow>
          (case start_date of
             None \<Rightarrow> None
           | Some s \<Rightarrow>
               if s = [] then None
               else (case parse_date env s of
                       None \<Rightarrow> Some InvalidDate
                     | Some st_date \<Rightarrow>
                         (case dt_ge st_date exp_date of
                            None \<Rightarrow> Some Unhandled
                          | Some b \<Rightarrow> if b then Some InvalidDateOrder else None))))"

definition new_announcement ::
  "'k env \<Rightarrow> string \<Rightarrow> string \<Rightarrow> string option \<Rightarrow> string \<Rightarrow> datetime \<Rightarrow> document" where
  "new_announcement env message expiration_date start_date teacher_username now =
     (let announcement =
            [''message'' \<mapsto> Str message,
             ''expiration_date'' \<mapsto> Str expiration_date,
             ''created_by'' \<mapsto> Str teacher_username,
             ''created_at'' \<mapsto> Str (isoformat env now)]
      in case start_date of
           None \<Rightarrow> announcement
         | Some s \<Rightarrow> if s = [] then announcement else announcement(''start_date'' \<mapsto> Str s))"

definition create_announcement ::
  "'k env \<Rightarrow> db \<Rightarrow> string \<Rightarrow> string \<Rightarrow> string option \<Rightarrow> string \<Rightarrow> datetime \<Rightarrow> objectid
     \<Rightarrow> (error + document) \<times> db" where
  "create_announcement env st message expiration_date start_date teacher_username now new_id =
     (case find_teacher env st teacher_username of
        None \<Rightarrow> (Inl Unauthorized, st)
      | Some teacher \<Rightarrow>
          (case validate_dates env expiration_date start_date of
             Some e \<Rightarrow> (Inl e, st)
           | None \<Rightarrow>
               (let announcement =
                      new_announcement env message expiration_date start_date teacher_username now
                in case insert_one (announcements_collection st) announcement new_id of
                     None \<Rightarrow> (Inl Unhandled, st)
                   | Some docs \<Rightarrow>
                       (Inr (announcement(''_id'' \<mapsto> ObjId new_id,
                                          ''id'' \<mapsto> Str (str_ObjectId env new_id))),
                        st\<lparr>announcements_collection := docs\<rparr>))))"

text \<open>The parts of \<^verbatim>\<open>update_fields\<close>, in the order the handler fills the dict.\<close>

definition message_fields :: "string option \<Rightarrow> (string \<times> bson) list" where
  "message_fields message =
     (case message of None \<Rightarrow> [] | Some m \<Rightarrow> [(''message'', Str m)])"

text \<open>\<open>None\<close>: the handler raised the \<^verbatim>\<open>HTTPException\<close> for an invalid date.\<close>

definition expiration_fields :: "'k env \<Rightarrow> string option \<Rightarrow> (string \<times> bson) list option" where
  "expiration_fields env expiration_date =
     (case expiration_date of
        None \<Rightarrow> Some []
      | Some e \<Rightarrow>
          (case parse_date env e of
             None \<Rightarrow> None
           | Some t \<Rightarrow> Some [(''expiration_date'', Str e)]))"

definition start_fields :: "'k env \<Rightarrow> string option \<Rightarrow> (string \<times> bson) list option" where
  "start_fields env start_date =
     (case start_date of
        None \<Rightarrow> Some []
      | Some s \<Rightarrow>
          if s = [] then Some []
          else (case parse_date env s of
                  None \<Rightarrow> None
                | Some t \<Rightarrow> Some [(''start_date'', Str s)]))"

text \<open>
  \<^verbatim>\<open>fromisoformat(v.replace('Z', '+00:00'))\<close> inside the last \<^verbatim>\<open>try\<close> block of
  \<^verbatim>\<open>update_announcement\<close>, on a value read from a dict: a string that does not parse
  raises the \<^verbatim>\<open>ValueError\<close> the block turns into \<open>InvalidDate\<close>; a value that is not a
  string has no such \<^verbatim>\<open>replace\<close>, and that exception is not caught.
\<close>

fun parse_field :: "'k env \<Rightarrow> bson \<Rightarrow> error + datetime" where
  "parse_field env (Str s) =
     (case parse_date env s of None \<Rightarrow> Inl InvalidDate | Some t \<Rightarrow> Inr t)"
| "parse_field env (ObjId i) = Inl Unhandled"
| "parse_field env (Date t) = Inl Unhandled"

text \<open>The final check of the date order; \<open>None\<close> means it raised nothing.\<close>

fun date_order_check :: "'k env \<Rightarrow> bson option \<Rightarrow> bson option \<Rightarrow> error option" where
  "date_order_check env (Some final_start) (Some final_exp) =
     (if truthy (Some final_start) \<and> truthy (Some final_exp) then
        (case parse_field env final_start of
           Inl e \<Rightarrow> Some e
         | Inr st_date \<Rightarrow>
             (case parse_field env final_exp of
                Inl e \<Rightarrow> Some e
              | Inr exp_date \<Rightarrow>
                  (case dt_ge st_date exp_date of
                     None \<Rightarrow> Some Unhandled
                   | Some b \<Rightarrow> if b then Some InvalidDateOrder else None)))
      else None)"
| "date_order_check env None final_exp = None"
| "date_order_check env (Some final_start) None = None"

text \<open>\<^verbatim>\<open>update_fields.get(key, existing.get(key))\<close>\<close>

definition final_value :: "(string \<times> bson) list \<Rightarrow> document \<Rightarrow> string \<Rightarrow> bson option" where
  "final_value update_fields existing key =
     (case map_of update_fields key of Some v \<Rightarrow> Some v | None \<Rightarrow> existing key)"

text \<open>
  The \<^verbatim>\<open>$unset\<close> of the start date and the \<^verbatim>\<open>$set\<close> of the collected fields, as
  \<^verbatim>\<open>update_announcement\<close> sends them to the store.
\<close>

definition unset_start_date :: "'k env \<Rightarrow> db \<Rightarrow> objectid \<Rightarrow> db" where
  "unset_start_date env st i =
     st\<lparr>announcements_collection :=
          update_one env (announcements_collection st) (by_id i) (Unset [''start_date''])\<rparr>"

definition set_update_fields :: "'k env \<Rightarrow> db \<Rightarrow> objectid \<Rightarrow> (string \<times> bson) list \<Rightarrow> db" where
  "set_update_fields env st i update_fields =
     st\<lparr>announcements_collection :=
          update_one env (announcements_collection st) (by_id i) (Set update_fields)\<rparr>"

text \<open>
  The end of \<^verbatim>\<open>update_announcement\<close>, from the final check of the date order on:
  \<open>st\<close> is the store as the first part left it, \<open>existing\<close> the dict read at the start of
  the call, \<open>update_fields\<close> the dict built from the arguments.
\<close>

definition check_and_store ::
  "'k env \<Rightarrow> db \<Rightarrow> objectid \<Rightarrow> document \<Rightarrow> (string \<times> bson) list \<Rightarrow> (error + document) \<times> db" where
  "check_and_store env st i existing update_fields =
     (let final_start = final_value update_fields existing ''start_date'';
          final_exp = final_value update_fields existing ''expiration_date''
      in case date_order_check env final_start final_exp of
           Some e \<Rightarrow> (Inl e, st)
         | None \<Rightarrow>
             (let st' = (if update_fields \<noteq> [] then set_update_fields env st i update_fields
                         else st)
              in case find_one env (announcements_collection st') (by_id i) of
                   None \<Rightarrow> (Inl Unhandled, st')
                 | Some updated \<Rightarrow> (Inr (serialize_announcement env updated), st')))"

text \<open>
  \<^verbatim>\<open>update_announcement\<close> from the point where \<open>existing\<close> has been read. The
  \<^verbatim>\<open>$unset\<close> of the start date is sent to the store as soon as the empty string is
  seen, before the final check; \<open>existing\<close> stays the dict read before it.
\<close>

definition update_existing ::
  "'k env \<Rightarrow> db \<Rightarrow> objectid \<Rightarrow> document \<Rightarrow> string option \<Rightarrow> string option \<Rightarrow> string option
     \<Rightarrow> (error + document) \<times> db" where
  "update_existing env st i existing message expiration_date start_date =
     (case expiration_fields env expiration_date of
        None \<Rightarrow> (Inl InvalidDate, st)
      | Some ef \<Rightarrow>
          (case start_fields env start_date of
             None \<Rightarrow> (Inl InvalidDate, st)
           | Some sf \<Rightarrow>
               check_and_store env
                 (if start_date = Some [] then unset_start_date env st i else st)
                 i existing (message_fields message @ ef @ sf)))"

definition update_announcement ::
  "'k env \<Rightarrow> db \<Rightarrow> string \<Rightarrow> string option \<Rightarrow> string option \<Rightarrow> string option \<Rightarrow> string
     \<Rightarrow> (error + document) \<times> db" where
  "update_announcement env st announcement_id message expiration_date start_date teacher_username =
     (case find_teacher env st teacher_username of
        None \<Rightarrow> (Inl Unauthorized, st)
      | Some teacher \<Rightarrow>
          (case ObjectId env announcement_id of
             None \<Rightarrow> (Inl InvalidIdentifier, st)
           | Some i \<Rightarrow>
               (case find_one env (announcements_collection st) (by_id i) of
                  None \<Rightarrow> (Inl NotFound, st)
                | Some existing \<Rightarrow>
                    update_existing env st i existing message expiration_date start_date)))"

definition delete_announcement ::
  "'k env \<Rightarrow> db \<Rightarrow> string \<Rightarrow> string \<Rightarrow> (error + document) \<times> db" where
  "delete_announcement env st announcement_id teacher_username =
     (case find_teacher env st teacher_username of
        None \<Rightarrow> (Inl Unauthorized, st)
      | Some teacher \<Rightarrow>
          (case ObjectId env announcement_id of
             None \<Rightarrow> (Inl InvalidIdentifier, st)
           | Some i \<Rightarrow>
               (case delete_one env (announcements_collection st) (by_id i) of
                  (docs, deleted_count) \<Rightarrow>
                    if deleted_count = 0 then (Inl NotFound, st)
                    else (Inr [''message'' \<mapsto> Str ''Announcement deleted successfully''],
                          st\<lparr>announcements_collection := docs\<rparr>))))"

section \<open>Notions of the specification\<close>

text \<open>A teacher record exists for the username; an announcement with the identifier is stored.\<close>

definition teacher_exists :: "db \<Rightarrow> string \<Rightarrow> bool" where
  "teacher_exists st teacher_username =
     list_ex (\<lambda>d. d ''_id'' = Some (Str teacher_username)) (teachers_collection st)"

definition announcement_exists :: "db \<Rightarrow> objectid \<Rightarrow> bool" where
  "announcement_exists st i =
     list_ex (\<lambda>d. d ''_id'' = Some (ObjId i)) (announcements_collection st)"

text \<open>The storage engine keeps \<^verbatim>\<open>_id\<close> unique within a collection.\<close>

definition unique_ids :: "db \<Rightarrow> bool" where
  "unique_ids st = distinct (map (\<lambda>d. d ''_id'') (announcements_collection st))"

text \<open>
  The order of a listing: most recent \<^verbatim>\<open>created_at\<close> first, in the engine's sort order.
\<close>

definition created_at_key :: "'k env \<Rightarrow> document \<Rightarrow> 'k" where
  "created_at_key env d = bson_sort_key env (d ''created_at'')"

definition newest_first :: "('k::linorder) env \<Rightarrow> document list \<Rightarrow> bool" where
  "newest_first env ds = sorted (rev (map (created_at_key env) ds))"

text \<open>
  An active announcement, in the words of the specification: its \<^verbatim>\<open>start_date\<close>, if it
  has one, has passed (is not after \<open>now\<close>), and its \<^verbatim>\<open>expiration_date\<close> has not (is not
  before \<open>now\<close>). The dates are the stored ones: a date kept as text, as the handlers
  write it, counts with the time it parses to.
\<close>

fun stored_instant :: "'k env \<Rightarrow> bson \<Rightarrow> int option" where
  "stored_instant env (Str s) = map_option instant (parse_date env s)"
| "stored_instant env (Date t) = Some (instant t)"
| "stored_instant env (ObjId i) = None"

definition is_active :: "'k env \<Rightarrow> datetime \<Rightarrow> document \<Rightarrow> bool" where
  "is_active env now d =
     ((case d ''start_date'' of
         None \<Rightarrow> True
       | Some sv \<Rightarrow>
           (case stored_instant env sv of None \<Rightarrow> False | Some t \<Rightarrow> t \<le> instant now))
      \<and> (case d ''expiration_date'' of
            None \<Rightarrow> False
          | Some ev \<Rightarrow>
              (case stored_instant env ev of None \<Rightarrow> False | Some t \<Rightarrow> instant now \<le> t)))"

text \<open>
  The document an update is to leave behind: each field the caller supplied takes the
  supplied value, the empty string as \<^verbatim>\<open>start_date\<close> removes that field, and every other
  field keeps the value of the stored document.
\<close>

definition updated_document ::
  "string option \<Rightarrow> string option \<Rightarrow> string option \<Rightarrow> document \<Rightarrow> document" where
  "updated_document message expiration_date start_date existing =
     (\<lambda>key.
        if key = ''message'' then
          (case message of None \<Rightarrow> existing key | Some m \<Rightarrow> Some (Str m))
        else if key = ''expiration_date'' then
          (case expiration_date of None \<Rightarrow> existing key | Some e \<Rightarrow> Some (Str e))
        else if key = ''start_date'' then
          (case start_date of
             None \<Rightarrow> existing key
           | Some s \<Rightarrow> if s = [] then None else Some (Str s))
        else existing key)"

text \<open>
  The invariant of the data model: if \<^verbatim>\<open>start_date\<close> and \<^verbatim>\<open>expiration_date\<close> are both
  present, both parse and the parsed start date is strictly earlier.
\<close>

fun parsed_before :: "'k env \<Rightarrow> bson \<Rightarrow> bson \<Rightarrow> bool" where
  "parsed_before env (Str s) (Str e) =
     (case parse_date env s of
        None \<Rightarrow> False
      | Some st_date \<Rightarrow>
          (case parse_date env e of
             None \<Rightarrow> False
           | Some exp_date \<Rightarrow> dt_lt st_date exp_date = Some True))"
| "parsed_before env (Str s) (ObjId i) = False"
| "parsed_before env (Str s) (Date t) = False"
| "parsed_before env (ObjId i) ev = False"
| "parsed_before env (Date t) ev = False"

definition date_invariant :: "'k env \<Rightarrow> document \<Rightarrow> bool" where
  "date_invariant env d =
     (case d ''start_date'' of
        None \<Rightarrow> True
      | Some sv \<Rightarrow>
          (case d ''expiration_date'' of
             None \<Rightarrow> True
           | Some ev \<Rightarrow> parsed_before env sv ev))"

text \<open>
  What the handlers keep true of a document they have written: the expiration date is a
  non-empty string that parses, and a start date, if there is one, is a non-empty string
  that parses to an earlier date.
\<close>

definition dates_checked :: "'k env \<Rightarrow> document \<Rightarrow> bool" where
  "dates_checked env d =
     (case d ''expiration_date'' of
        None \<Rightarrow> False
      | Some ev \<Rightarrow>
          truthy (Some ev)
          \<and> (case parse_field env ev of Inl e \<Rightarrow> False | Inr exp_date \<Rightarrow> True)
          \<and> (case d ''start_date'' of
                None \<Rightarrow> True
              | Some sv \<Rightarrow> truthy (Some sv) \<and> parsed_before env sv ev))"

text \<open>
  The documents the claim on the invariant speaks of: the stored document of a create
  call that succeeded, and what an update call (whatever it returns) leaves of such a
  document.
\<close>

inductive reachable_document :: "'k env \<Rightarrow> document \<Rightarrow> bool" for env :: "'k env" where
  created:
    "create_announcement env st message expiration_date start_date teacher_username now new_id
       = (Inr r, st') \<Longrightarrow>
     find_one env (announcements_collection st') (by_id new_id) = Some d \<Longrightarrow>
     reachable_document env d"
| updated:
    "reachable_document env d \<Longrightarrow>
     ObjectId env announcement_id = Some i \<Longrightarrow>
     find_one env (announcements_collection st) (by_id i) = Some d \<Longrightarrow>
     update_announcement env st announcement_id message expiration_date start_date teacher_username
       = (r, st') \<Longrightarrow>
     find_one env (announcements_collection st') (by_id i) = Some d' \<Longrightarrow>
     reachable_document env d'"

section \<open>A concrete environment and store\<close>

text \<open>
  The theorems below hold for every environment. To evaluate the model on examples, this
  environment gives the library functions at the strings the examples use: the dates as
  Python parses and prints them (in microseconds since 1970), three object identifiers with
  their 24-digit hexadecimal form, an engine that orders dates against dates only, and
  the engine's sort order (a missing field first, then text bytewise, then object
  identifiers, then dates).
\<close>

fun compare_int :: "int \<Rightarrow> int \<Rightarrow> comparison" where
  "compare_int a b = (if a < b then Less else if a = b then Equal else Greater)"

definition example_env :: "(nat \<times> string \<times> int) env" where
  "example_env = \<lparr>
     fromisoformat = map_of
       [(''2020-01-01'', Naive 1577836800000000),
        (''2030-01-01'', Naive 1893456000000000),
        (''2030-01-01T00:00:00+00:00'', Aware 1893456000000000),
        (''2030-06-01T00:00:00+00:00'', Aware 1906502400000000),
        (''2031-01-01T00:00:00+00:00'', Aware 1924992000000000)],
     isoformat = (\<lambda>t. if t = Naive 1793750400000000 then ''2026-11-04T00:00:00''
                      else if t = Naive 1793750401500000 then ''2026-11-04T00:00:01.500000''
                      else ''''),
     ObjectId = map_of
       [(''507f1f77bcf86cd799439011'', Oid 24912482966938930280208240657),
        (''507f191e810c19729de860ea'', Oid 24912452986661892666266509546),
        (''507f191e810c19729de860eb'', Oid 24912452986661892666266509547)],
     str_ObjectId =
       (\<lambda>i. if i = Oid 24912482966938930280208240657 then ''507f1f77bcf86cd799439011''
            else if i = Oid 24912452986661892666266509546 then ''507f191e810c19729de860ea''
            else if i = Oid 24912452986661892666266509547 then ''507f191e810c19729de860eb''
            else ''''),
     bson_compare =
       (\<lambda>v t. case v of Date u \<Rightarrow> Some (compare_int (instant u) (instant t)) | _ \<Rightarrow> None),
     bson_sort_key =
       (\<lambda>v. case v of
               None \<Rightarrow> (0, [], 0)
             | Some (Str s) \<Rightarrow> (1, s, 0)
             | Some (ObjId (Oid n)) \<Rightarrow> (2, [], int n)
             | Some (Date t) \<Rightarrow> (3, [], instant t)) \<rparr>"

text \<open>One teacher, and one announcement as \<^verbatim>\<open>create_announcement\<close> stores it.\<close>

definition example_announcement :: document where
  "example_announcement =
     [''_id'' \<mapsto> ObjId (Oid 24912482966938930280208240657),
      ''message'' \<mapsto> Str ''Exam Friday'',
      ''start_date'' \<mapsto> Str ''2030-06-01T00:00:00Z'',
      ''expiration_date'' \<mapsto> Str ''2031-01-01T00:00:00Z'',
      ''created_by'' \<mapsto> Str ''t1'',
      ''created_at'' \<mapsto> Str ''2026-11-04T00:00:00'']"

definition example_db :: db where
  "example_db = \<lparr>
     announcements_collection = [example_announcement],
     teachers_collection = [[''_id'' \<mapsto> Str ''t1'']] \<rparr>"

text \<open>
  A store with three announcements: the one above, whose dates are text, and two whose
  dates are stored as dates, one running and one expired on 4 November 2026.
\<close>

definition example_listing :: db where
  "example_listing = example_db\<lparr>announcements_collection :=
     announcements_collection example_db @
       [[''_id'' \<mapsto> ObjId (Oid 24912452986661892666266509546),
         ''message'' \<mapsto> Str ''Science fair'',
         ''start_date'' \<mapsto> Date (Naive 1793491200000000),
         ''expiration_date'' \<mapsto> Date (Naive 1796083200000000),
         ''created_by'' \<mapsto> Str ''t1'',
         ''created_at'' \<mapsto> Str ''2026-11-04T00:00:01.500000''],
        [''_id'' \<mapsto> ObjId (Oid 24912452986661892666266509547),
         ''message'' \<mapsto> Str ''Bake sale'',
         ''expiration_date'' \<mapsto> Date (Naive 1793577600000000),
         ''created_by'' \<mapsto> Str ''t1'',
         ''created_at'' \<mapsto> Str ''2026-11-03T12:00:00'']]\<rparr>"

text \<open>
  The document a create call stores when it is given the second identifier, a start date
  of 1 January 2030 and an expiration date of 1 June 2030.
\<close>

definition example_created :: document where
  "example_created =
     (new_announcement example_env ''Science fair'' ''2030-06-01T00:00:00Z''
        (Some ''2030-01-01T00:00:00Z'') ''t1'' (Naive 1793750401500000))
     (''_id'' \<mapsto> ObjId (Oid 24912452986661892666266509546))"

section \<open>Facts about the store\<close>

lemma matches_by_id [simp]: "matches env d (by_id i) = (d ''_id'' = Some (ObjId i))"
  by (simp add: by_id_def)

lemma find_teacher_Some: "teacher_exists st u \<Longrightarrow> \<exists>t. find_teacher env st u = Some t"
  by (cases "find_teacher env st u")
     (auto simp: teacher_exists_def find_teacher_def find_one_def find_None_iff list_ex_iff)

lemma find_one_by_id_None:
  "find_one env (announcements_collection st) (by_id i) = None \<longleftrightarrow> \<not> announcement_exists st i"
  by (auto simp: announcement_exists_def find_one_def find_None_iff list_ex_iff)

lemma delete_one_count:
  "snd (delete_one env docs q) = (if find_one env docs q = None then 0 else 1)"
  by (induction docs) (auto simp: find_one_def split: prod.splits)

lemma delete_one_ids:
  "map (\<lambda>d. d ''_id'') (fst (delete_one env docs (by_id i)))
     = remove1 (Some (ObjId i)) (map (\<lambda>d. d ''_id'') docs)"
  by (induction docs) (auto split: prod.splits)

lemma delete_one_gone:
  assumes "distinct (map (\<lambda>d. d ''_id'') docs)"
  shows "find_one env (fst (delete_one env docs (by_id i))) (by_id i) = None"
proof -
  have "Some (ObjId i) \<notin> set (map (\<lambda>d. d ''_id'') (fst (delete_one env docs (by_id i))))"
    using assms by (simp add: delete_one_ids)
  then show ?thesis
    by (force simp: find_one_def find_None_iff image_iff)
qed

lemma find_teacher_None:
  "find_teacher env st u = None \<longleftrightarrow> \<not> list_ex (\<lambda>d. d ''_id'' = Some (Str u)) (teachers_collection st)"
  by (auto simp add: find_teacher_def find_one_def find_None_iff list_ex_iff)

section \<open>Facts about the example environment\<close>

lemma example_sort_key: "bson_sort_key example_env (Some (Str s)) = (1, s, 0)"
  by (simp add: example_env_def)

lemma example_parse:
  "parse_date example_env ''2030-01-01T00:00:00Z'' = Some (Aware 1893456000000000)"
  "parse_date example_env ''2030-06-01T00:00:00Z'' = Some (Aware 1906502400000000)"
  "parse_date example_env ''2031-01-01T00:00:00Z'' = Some (Aware 1924992000000000)"
  "parse_date example_env ''2030-01-01'' = Some (Naive 1893456000000000)"
  "parse_date example_env ''2020-01-01'' = Some (Naive 1577836800000000)"
  "parse_date example_env ''bad'' = None"
  "parse_date example_env [] = None"
  by (simp_all add: parse_date_def example_env_def)

lemma example_ObjectId:
  "ObjectId example_env ''507f1f77bcf86cd799439011'' = Some (Oid 24912482966938930280208240657)"
  "ObjectId example_env ''507f191e810c19729de860ea'' = Some (Oid 24912452986661892666266509546)"
  "ObjectId example_env ''not-a-valid-id'' = None"
  by (simp_all add: example_env_def)

lemma example_str_ObjectId:
  "str_ObjectId example_env (Oid 24912482966938930280208240657) = ''507f1f77bcf86cd799439011''"
  "str_ObjectId example_env (Oid 24912452986661892666266509546) = ''507f191e810c19729de860ea''"
  by (simp_all add: example_env_def)

lemma example_teacher: "teacher_exists example_db ''t1''"
  by (simp add: teacher_exists_def example_db_def)

lemma example_docs: "announcements_collection example_db = [] @ example_announcement # []"
  by (simp add: example_db_def)

lemma example_id: "example_announcement ''_id'' = Some (ObjId (Oid 24912482966938930280208240657))"
  by (simp add: example_announcement_def)

lemma example_found:
  "find_one example_env (announcements_collection example_db)
     (by_id (Oid 24912482966938930280208240657)) = Some example_announcement"
  by (simp add: find_one_def example_db_def example_id)

lemma example_fields:
  "example_announcement ''start_date'' = Some (Str ''2030-06-01T00:00:00Z'')"
  "example_announcement ''expiration_date'' = Some (Str ''2031-01-01T00:00:00Z'')"
  "example_announcement ''message'' = Some (Str ''Exam Friday'')"
  "example_announcement ''created_by'' = Some (Str ''t1'')"
  "example_announcement ''created_at'' = Some (Str ''2026-11-04T00:00:00'')"
  by (simp_all add: example_announcement_def)

section \<open>The teacher check comes first\<close>

text \<open>
  C4. When no teacher record exists for \<open>teacher_username\<close>, create, update and delete
  all return \<open>Unauthorized\<close>, whatever the other arguments are (a malformed identifier,
  invalid dates), and the store is left as it was: the result is fixed before any
  announcement is looked at, so the check precedes the validation of identifiers and
  dates in all three handlers.
\<close>

theorem unauthorized_first:
  assumes "\<not> teacher_exists st teacher_username"
  shows "create_announcement env st message expiration_date start_date teacher_username now new_id
           = (Inl Unauthorized, st)
       \<and> update_announcement env st announcement_id message' expiration_date' start_date' teacher_username
           = (Inl Unauthorized, st)
       \<and> delete_announcement env st announcement_id teacher_username = (Inl Unauthorized, st)"
proof -
  from assms have "find_teacher env st teacher_username = None"
    by (simp add: find_teacher_None teacher_exists_def)
  then show ?thesis
    by (simp add: create_announcement_def update_announcement_def delete_announcement_def)
qed

theorem unauthorized_first_witness:
  "\<not> teacher_exists example_db ''nobody''
   \<and> create_announcement example_env example_db ''Exam Friday'' ''bad'' (Some ''worse'') ''nobody''
        (Naive 1793750400000000) (Oid 24912452986661892666266509546) = (Inl Unauthorized, example_db)
   \<and> update_announcement example_env example_db ''not-a-valid-id'' None (Some ''bad'') (Some '''') ''nobody''
        = (Inl Unauthorized, example_db)
   \<and> delete_announcement example_env example_db ''not-a-valid-id'' ''nobody'' = (Inl Unauthorized, example_db)"
proof -
  have h: "\<not> teacher_exists example_db ''nobody''"
    by (simp add: teacher_exists_def example_db_def example_announcement_def)
  show ?thesis
    using h unauthorized_first [OF h] by simp
qed

section \<open>Malformed and unknown identifiers\<close>

text \<open>
  C6. For get, and for delete by an existing teacher: an identifier string that
  \<^verbatim>\<open>ObjectId\<close> rejects gives \<open>InvalidIdentifier\<close> (never \<open>NotFound\<close>); an identifier
  that parses while no announcement has it gives \<open>NotFound\<close> (for delete, nothing was
  removed). With identifiers unique in the collection, a second delete of an identifier
  whose first delete succeeded returns \<open>NotFound\<close>; it does not end in an unhandled
  exception.
\<close>

theorem get_delete_identifier_errors:
  "(ObjectId env announcement_id = None \<longrightarrow>
      get_announcement env st announcement_id = Inl InvalidIdentifier
      \<and> (teacher_exists st teacher_username \<longrightarrow>
           delete_announcement env st announcement_id teacher_username = (Inl InvalidIdentifier, st)))
   \<and> (\<forall>i. ObjectId env announcement_id = Some i \<and> \<not> announcement_exists st i \<longrightarrow>
          get_announcement env st announcement_id = Inl NotFound
          \<and> (teacher_exists st teacher_username \<longrightarrow>
               delete_announcement env st announcement_id teacher_username = (Inl NotFound, st)))
   \<and> (\<forall>r st'. unique_ids st
          \<and> delete_announcement env st announcement_id teacher_username = (Inr r, st') \<longrightarrow>
          delete_announcement env st' announcement_id teacher_username = (Inl NotFound, st'))"
proof (intro conjI allI impI)
  assume "ObjectId env announcement_id = None"
  then show "get_announcement env st announcement_id = Inl InvalidIdentifier"
    by (simp add: get_announcement_def)
next
  assume "ObjectId env announcement_id = None" and "teacher_exists st teacher_username"
  then show "delete_announcement env st announcement_id teacher_username = (Inl InvalidIdentifier, st)"
    using find_teacher_Some [of st teacher_username env]
    by (auto simp: delete_announcement_def)
next
  fix i
  assume a: "ObjectId env announcement_id = Some i \<and> \<not> announcement_exists st i"
  then have "find_one env (announcements_collection st) (by_id i) = None"
    by (simp add: find_one_by_id_None)
  with a show "get_announcement env st announcement_id = Inl NotFound"
    by (simp add: get_announcement_def)
next
  fix i
  assume a: "ObjectId env announcement_id = Some i \<and> \<not> announcement_exists st i"
    and t: "teacher_exists st teacher_username"
  from a have "find_one env (announcements_collection st) (by_id i) = None"
    by (simp add: find_one_by_id_None)
  then have "snd (delete_one env (announcements_collection st) (by_id i)) = 0"
    by (simp add: delete_one_count)
  with a t show "delete_announcement env st announcement_id teacher_username = (Inl NotFound, st)"
    using find_teacher_Some [of st teacher_username env]
    by (auto simp: delete_announcement_def split: prod.splits)
next
  fix r st'
  assume a: "unique_ids st
          \<and> delete_announcement env st announcement_id teacher_username = (Inr r, st')"
  then obtain t i where t: "find_teacher env st teacher_username = Some t"
    and i: "ObjectId env announcement_id = Some i"
    and st': "st' = st\<lparr>announcements_collection :=
                 fst (delete_one env (announcements_collection st) (by_id i))\<rparr>"
    by (auto simp: delete_announcement_def split: option.splits prod.splits if_splits)
  from a have "find_one env (announcements_collection st') (by_id i) = None"
    by (simp add: st' unique_ids_def delete_one_gone)
  then have "snd (delete_one env (announcements_collection st') (by_id i)) = 0"
    by (simp add: delete_one_count)
  moreover from t have "find_teacher env st' teacher_username = Some t"
    by (simp add: st' find_teacher_def)
  ultimately show "delete_announcement env st' announcement_id teacher_username = (Inl NotFound, st')"
    using i by (auto simp: delete_announcement_def split: prod.splits)
qed

theorem get_delete_identifier_errors_witness:
  "get_announcement example_env example_db ''not-a-valid-id'' = Inl InvalidIdentifier
   \<and> delete_announcement example_env example_db ''not-a-valid-id'' ''t1''
       = (Inl InvalidIdentifier, example_db)
   \<and> get_announcement example_env example_db ''507f191e810c19729de860ea'' = Inl NotFound
   \<and> delete_announcement example_env example_db ''507f191e810c19729de860ea'' ''t1''
       = (Inl NotFound, example_db)
   \<and> \<not> isl (fst (delete_announcement example_env example_db ''507f1f77bcf86cd799439011'' ''t1''))
   \<and> fst (delete_announcement example_env
        (snd (delete_announcement example_env example_db ''507f1f77bcf86cd799439011'' ''t1''))
        ''507f1f77bcf86cd799439011'' ''t1'') = Inl NotFound"
proof -
  have e: "ObjectId example_env ''not-a-valid-id'' = None"
    "ObjectId example_env ''507f191e810c19729de860ea'' = Some (Oid 24912452986661892666266509546)"
    "ObjectId example_env ''507f1f77bcf86cd799439011'' = Some (Oid 24912482966938930280208240657)"
    by (simp_all add: example_env_def)
  have t: "teacher_exists example_db ''t1''"
    by (simp add: teacher_exists_def example_db_def example_announcement_def)
  have n: "\<not> announcement_exists example_db (Oid 24912452986661892666266509546)"
    by (simp add: announcement_exists_def example_db_def example_announcement_def)
  have u: "unique_ids example_db"
    by (simp add: unique_ids_def example_db_def example_announcement_def)
  have d: "delete_announcement example_env example_db ''507f1f77bcf86cd799439011'' ''t1''
     = (Inr [''message'' \<mapsto> Str ''Announcement deleted successfully''],
        example_db\<lparr>announcements_collection := []\<rparr>)"
    by (simp add: delete_announcement_def find_teacher_def find_one_def e example_db_def example_announcement_def)
  show ?thesis
    using get_delete_identifier_errors [of example_env "''not-a-valid-id''" example_db "''t1''"]
      get_delete_identifier_errors [of example_env "''507f191e810c19729de860ea''" example_db "''t1''"]
      get_delete_identifier_errors [of example_env "''507f1f77bcf86cd799439011''" example_db "''t1''"]
      e t n u d
    by simp
qed

section \<open>Listing\<close>

lemma sort_descending_mset: "mset (sort_descending env f ds) = mset ds"
  by (simp add: sort_descending_def)

lemma sort_descending_newest_first: "newest_first env (sort_descending env ''created_at'' ds)"
proof -
  have "created_at_key env = (\<lambda>d. bson_sort_key env (d ''created_at''))"
    by (rule ext) (simp add: created_at_key_def)
  then show ?thesis
    by (simp add: sort_descending_def newest_first_def rev_map)
qed

text \<open>
  C10. With \<^verbatim>\<open>active_only\<close> false, the listing is the serialization of all stored
  announcements, each once, most recent \<^verbatim>\<open>created_at\<close> first; with no announcement
  stored it is the empty list. This holds for every store, so also for one whose
  \<^verbatim>\<open>created_at\<close> values are distinct.
\<close>

theorem list_all_newest_first:
  "\<exists>ds. get_announcements env st False now = map (serialize_announcement env) ds
      \<and> mset ds = mset (announcements_collection st)
      \<and> newest_first env ds
      \<and> (announcements_collection st = [] \<longrightarrow> get_announcements env st False now = [])"
proof (intro exI conjI impI)
  let ?ds = "sort_descending env ''created_at'' (announcements_collection st)"
  show "get_announcements env st False now = map (serialize_announcement env) ?ds"
    by (simp add: get_announcements_def find_docs_def)
  show "mset ?ds = mset (announcements_collection st)"
    by (rule sort_descending_mset)
  show "newest_first env ?ds"
    by (rule sort_descending_newest_first)
  show "get_announcements env st False now = []" if "announcements_collection st = []"
    using that by (simp add: get_announcements_def find_docs_def sort_descending_def)
qed

theorem list_all_newest_first_witness:
  "map (\<lambda>d. d ''id'')
     (get_announcements example_env example_listing False (Naive 1793750401500000))
   = [Some (Str ''507f191e810c19729de860ea''), Some (Str ''507f1f77bcf86cd799439011''),
      Some (Str ''507f191e810c19729de860eb'')]
   \<and> get_announcements example_env (example_db\<lparr>announcements_collection := []\<rparr>) False
        (Naive 1793750401500000) = []"
proof -
  have listing: "map (\<lambda>d. d ''id'')
     (get_announcements example_env example_listing False (Naive 1793750401500000))
   = [Some (Str ''507f191e810c19729de860ea''), Some (Str ''507f1f77bcf86cd799439011''),
      Some (Str ''507f191e810c19729de860eb'')]"
    by (simp add: get_announcements_def find_docs_def sort_descending_def
          example_listing_def example_db_def example_announcement_def serialize_announcement_def example_sort_key)
       (simp add: example_env_def serialize_announcement_def)
  have
    "announcements_collection (example_db\<lparr>announcements_collection := []\<rparr>) = [] \<longrightarrow>
       get_announcements example_env (example_db\<lparr>announcements_collection := []\<rparr>) False
         (Naive 1793750401500000) = []"
    using list_all_newest_first [of example_env "example_db\<lparr>announcements_collection := []\<rparr>"
        "Naive 1793750401500000"]
    by blast
  with listing show ?thesis
    by simp
qed

section \<open>Facts about the update handler\<close>

lemma apply_update_Unset_start [simp]:
  "apply_update (Unset [''start_date'']) d = d(''start_date'' := None)"
  by simp

lemma find_one_split:
  "find_one env docs q = Some d \<Longrightarrow>
     \<exists>pre post. docs = pre @ d # post \<and> list_all (\<lambda>x. \<not> matches env x q) pre \<and> matches env d q"
proof (induction docs)
  case Nil
  then show ?case by (simp add: find_one_def)
next
  case (Cons x xs)
  show ?case
  proof (cases "matches env x q")
    case True
    with Cons.prems have "x = d" by (simp add: find_one_def)
    with True have "x # xs = [] @ d # xs \<and> list_all (\<lambda>x. \<not> matches env x q) [] \<and> matches env d q"
      by simp
    then show ?thesis by blast
  next
    case False
    with Cons.prems have "find_one env xs q = Some d" by (simp add: find_one_def)
    then obtain pre post where "xs = pre @ d # post" "list_all (\<lambda>x. \<not> matches env x q) pre"
      "matches env d q"
      using Cons.IH by blast
    with False have "x # xs = (x # pre) @ d # post \<and> list_all (\<lambda>x. \<not> matches env x q) (x # pre)
        \<and> matches env d q"
      by simp
    then show ?thesis by blast
  qed
qed

lemma find_one_at:
  "list_all (\<lambda>x. \<not> matches env x q) pre \<Longrightarrow> matches env d q \<Longrightarrow>
     find_one env (pre @ d # post) q = Some d"
  by (induction pre) (simp_all add: find_one_def)

lemma update_one_at:
  "list_all (\<lambda>x. \<not> matches env x q) pre \<Longrightarrow> matches env d q \<Longrightarrow>
     update_one env (pre @ d # post) q u = pre @ apply_update u d # post"
  by (induction pre) simp_all


lemma expiration_fields_Some:
  "expiration_fields env expiration_date = Some ef \<Longrightarrow>
     ef = (case expiration_date of None \<Rightarrow> [] | Some e \<Rightarrow> [(''expiration_date'', Str e)])"
  by (simp add: expiration_fields_def split: option.splits)

lemma start_fields_Some:
  "start_fields env start_date = Some sf \<Longrightarrow>
     sf = (case start_date of None \<Rightarrow> []
           | Some s \<Rightarrow> if s = [] then [] else [(''start_date'', Str s)])"
  by (simp add: start_fields_def split: option.splits if_splits)

lemma set_update_fields:
  assumes "expiration_fields env expiration_date = Some ef"
      and "start_fields env start_date = Some sf"
  shows "apply_update (Set (message_fields message @ ef @ sf))
           (if start_date = Some [] then existing(''start_date'' := None) else existing)
         = updated_document message expiration_date start_date existing"
proof -
  note ef = expiration_fields_Some [OF assms(1)]
  note sf = start_fields_Some [OF assms(2)]
  show ?thesis
    unfolding ef sf message_fields_def
    by (cases message; cases expiration_date; cases start_date)
       (simp_all add: updated_document_def fun_eq_iff)
qed

lemma no_update_fields:
  assumes "expiration_fields env expiration_date = Some ef"
      and "start_fields env start_date = Some sf"
      and "message_fields message @ ef @ sf = []"
  shows "(if start_date = Some [] then existing(''start_date'' := None) else existing)
         = updated_document message expiration_date start_date existing"
  using set_update_fields [OF assms(1,2), of message existing] assms(3) by simp

lemma updated_document_id [simp]:
  "updated_document message expiration_date start_date existing ''_id'' = existing ''_id''"
  by (simp add: updated_document_def)

lemma unset_start_date_at:
  assumes "announcements_collection st = pre @ existing # post"
      and "list_all (\<lambda>x. \<not> matches env x (by_id i)) pre"
      and "matches env existing (by_id i)"
  shows "unset_start_date env st i
         = st\<lparr>announcements_collection := pre @ existing(''start_date'' := None) # post\<rparr>"
  using update_one_at [OF assms(2,3), of post "Unset [''start_date'']"] assms(1)
  by (simp add: unset_start_date_def)

lemma set_update_fields_at:
  assumes "announcements_collection st = pre @ d # post"
      and "list_all (\<lambda>x. \<not> matches env x (by_id i)) pre"
      and "matches env d (by_id i)"
  shows "set_update_fields env st i update_fields
         = st\<lparr>announcements_collection := pre @ apply_update (Set update_fields) d # post\<rparr>"
  using update_one_at [OF assms(2,3), of post "Set update_fields"] assms(1)
  by (simp add: set_update_fields_def)

lemma check_and_store_at:
  assumes docs: "announcements_collection st = pre @ d # post"
      and pre: "list_all (\<lambda>x. \<not> matches env x (by_id i)) pre"
      and d: "matches env d (by_id i)"
      and d': "(if update_fields = [] then d else apply_update (Set update_fields) d) = d'"
      and id: "d' ''_id'' = d ''_id''"
  shows "check_and_store env st i existing update_fields =
     (case date_order_check env (final_value update_fields existing ''start_date'')
             (final_value update_fields existing ''expiration_date'') of
        Some e \<Rightarrow> (Inl e, st)
      | None \<Rightarrow> (Inr (serialize_announcement env d'),
                 st\<lparr>announcements_collection := pre @ d' # post\<rparr>))"
proof -
  let ?st' = "if update_fields \<noteq> [] then set_update_fields env st i update_fields else st"
  have st': "?st' = st\<lparr>announcements_collection := pre @ d' # post\<rparr>"
    using set_update_fields_at [OF docs pre d, of update_fields] d' docs
    by (cases "update_fields = []") auto
  have "matches env d' (by_id i)"
    using d id by simp
  then have "find_one env (pre @ d' # post) (by_id i) = Some d'"
    by (rule find_one_at [OF pre])
  then have found: "find_one env (announcements_collection ?st') (by_id i) = Some d'"
    by (simp only: st') simp
  show ?thesis
    unfolding check_and_store_def Let_def
    by (simp only: found option.case) (simp only: st')
qed

lemma update_existing_at:
  assumes docs: "announcements_collection st = pre @ existing # post"
      and pre: "list_all (\<lambda>x. \<not> matches env x (by_id i)) pre"
      and ex: "matches env existing (by_id i)"
      and ef: "expiration_fields env expiration_date = Some ef"
      and sf: "start_fields env start_date = Some sf"
  shows "update_existing env st i existing message expiration_date start_date =
     (case date_order_check env
             (final_value (message_fields message @ ef @ sf) existing ''start_date'')
             (final_value (message_fields message @ ef @ sf) existing ''expiration_date'') of
        Some e \<Rightarrow>
          (Inl e, if start_date = Some []
                  then st\<lparr>announcements_collection := pre @ existing(''start_date'' := None) # post\<rparr>
                  else st)
      | None \<Rightarrow>
          (Inr (serialize_announcement env
                  (updated_document message expiration_date start_date existing)),
           st\<lparr>announcements_collection :=
                pre @ updated_document message expiration_date start_date existing # post\<rparr>))"
proof -
  define d1 where "d1 = (if start_date = Some [] then existing(''start_date'' := None) else existing)"
  define st1 where "st1 = (if start_date = Some [] then unset_start_date env st i else st)"
  define uf where "uf = message_fields message @ ef @ sf"
  define d2 where "d2 = updated_document message expiration_date start_date existing"
  have st1: "st1 = (if start_date = Some []
                  then st\<lparr>announcements_collection := pre @ existing(''start_date'' := None) # post\<rparr>
                  else st)"
    using unset_start_date_at [OF docs pre ex] by (simp add: st1_def)
  have docs1: "announcements_collection st1 = pre @ d1 # post"
    using docs by (simp add: st1 d1_def)
  have d1: "matches env d1 (by_id i)"
    using ex by (simp add: d1_def)
  have d2: "(if uf = [] then d1 else apply_update (Set uf) d1) = d2"
    using set_update_fields [OF ef sf, of message existing] no_update_fields [OF ef sf, of message existing]
    unfolding uf_def d1_def d2_def by (cases "message_fields message @ ef @ sf = []") simp_all
  have id: "d2 ''_id'' = d1 ''_id''"
    by (simp add: d2_def d1_def)
  have final: "st1\<lparr>announcements_collection := pre @ d2 # post\<rparr>
               = st\<lparr>announcements_collection := pre @ d2 # post\<rparr>"
    by (simp add: st1)
  have "update_existing env st i existing message expiration_date start_date
          = check_and_store env st1 i existing uf"
    by (simp add: update_existing_def ef sf st1_def uf_def)
  also have "\<dots> = (case date_order_check env (final_value uf existing ''start_date'')
             (final_value uf existing ''expiration_date'') of
        Some e \<Rightarrow> (Inl e, st1)
      | None \<Rightarrow> (Inr (serialize_announcement env d2),
                 st1\<lparr>announcements_collection := pre @ d2 # post\<rparr>))"
    by (rule check_and_store_at [OF docs1 pre d1 d2 id])
  finally show ?thesis
    by (simp only: final) (simp only: st1 uf_def d2_def)
qed

lemma teacher_exists_find: "teacher_exists st u \<longleftrightarrow> find_teacher env st u \<noteq> None"
  by (simp add: find_teacher_None teacher_exists_def)

lemma update_announcement_found:
  assumes "teacher_exists st teacher_username"
      and "ObjectId env announcement_id = Some i"
      and "find_one env (announcements_collection st) (by_id i) = Some existing"
  shows "update_announcement env st announcement_id message expiration_date start_date teacher_username
         = update_existing env st i existing message expiration_date start_date"
  using assms find_teacher_Some [OF assms(1), of env]
  by (auto simp: update_announcement_def)

lemma update_announcement_changes:
  assumes "update_announcement env st announcement_id message expiration_date start_date teacher_username
             = (r, st')"
      and "st' \<noteq> st \<or> \<not> isl r"
  shows "\<exists>i existing. teacher_exists st teacher_username
           \<and> ObjectId env announcement_id = Some i
           \<and> find_one env (announcements_collection st) (by_id i) = Some existing
           \<and> update_existing env st i existing message expiration_date start_date = (r, st')"
  using assms teacher_exists_find [of st teacher_username env]
  by (auto simp: update_announcement_def split: option.splits)

lemma update_existing_changes:
  assumes "update_existing env st i existing message expiration_date start_date = (r, st')"
      and "st' \<noteq> st \<or> \<not> isl r"
  shows "\<exists>ef sf. expiration_fields env expiration_date = Some ef
            \<and> start_fields env start_date = Some sf"
  using assms
  by (auto simp: update_existing_def split: option.splits)

lemma updated_document_nothing [simp]: "updated_document None None None existing = existing"
  by (simp add: updated_document_def fun_eq_iff)

lemma serialize_other:
  "key \<noteq> ''id'' \<Longrightarrow> key \<noteq> ''_id'' \<Longrightarrow> serialize_announcement env d key = d key"
  by (simp add: serialize_announcement_def split: option.splits bson.splits)

lemma announcement_exists_found:
  "announcement_exists st i \<Longrightarrow> \<exists>d. find_one env (announcements_collection st) (by_id i) = Some d"
  using find_one_by_id_None [of env st i] by (cases "find_one env (announcements_collection st) (by_id i)") auto

lemma get_announcement_at:
  assumes "ObjectId env announcement_id = Some i"
      and "announcements_collection st = pre @ d # post"
      and "list_all (\<lambda>x. \<not> matches env x (by_id i)) pre"
      and "matches env d (by_id i)"
  shows "get_announcement env st announcement_id = Inr (serialize_announcement env d)"
  using find_one_at [OF assms(3,4), of post] assms(1,2)
  by (simp add: get_announcement_def)

section \<open>What an update changes\<close>

text \<open>
  C8. After an update call that succeeds, the store differs from the one before in the
  addressed announcement only, and that announcement is the stored one with the supplied
  fields changed: \<^verbatim>\<open>message\<close> and \<^verbatim>\<open>expiration_date\<close> take the supplied values,
  \<^verbatim>\<open>start_date\<close> takes a supplied non-empty value or is removed by the empty string,
  and every other field (\<^verbatim>\<open>created_by\<close>, \<^verbatim>\<open>created_at\<close>, any other) keeps its value.
  The teachers are untouched, and a call supplying none of the three fields leaves the
  whole store as it was.
\<close>

theorem update_changes_supplied_fields_only:
  assumes "update_announcement env st announcement_id message expiration_date start_date
             teacher_username = (Inr r, st')"
  shows "\<exists>i existing pre post.
           ObjectId env announcement_id = Some i
         \<and> find_one env (announcements_collection st) (by_id i) = Some existing
         \<and> announcements_collection st = pre @ existing # post
         \<and> announcements_collection st'
             = pre @ updated_document message expiration_date start_date existing # post
         \<and> find_one env (announcements_collection st') (by_id i)
             = Some (updated_document message expiration_date start_date existing)
         \<and> teachers_collection st' = teachers_collection st
         \<and> (message = None \<and> expiration_date = None \<and> start_date = None \<longrightarrow> st' = st)"
proof -
  from assms obtain i existing where i: "ObjectId env announcement_id = Some i"
    and existing: "find_one env (announcements_collection st) (by_id i) = Some existing"
    and upd: "update_existing env st i existing message expiration_date start_date = (Inr r, st')"
    using update_announcement_changes [of env st announcement_id message expiration_date start_date
        teacher_username "Inr r" st']
    by auto
  from upd obtain ef sf where ef: "expiration_fields env expiration_date = Some ef"
    and sf: "start_fields env start_date = Some sf"
    using update_existing_changes [of env st i existing message expiration_date start_date "Inr r" st']
    by auto
  from existing obtain pre post where docs: "announcements_collection st = pre @ existing # post"
    and pre: "list_all (\<lambda>x. \<not> matches env x (by_id i)) pre"
    and ex: "matches env existing (by_id i)"
    using find_one_split by blast
  let ?u = "updated_document message expiration_date start_date existing"
  have st': "st' = st\<lparr>announcements_collection := pre @ ?u # post\<rparr>"
    using upd update_existing_at [OF docs pre ex ef sf, of message]
    by (auto split: option.splits)
  have "matches env ?u (by_id i)"
    using ex by simp
  then have found: "find_one env (pre @ ?u # post) (by_id i) = Some ?u"
    by (rule find_one_at [OF pre])
  have same: "st' = st" if "message = None \<and> expiration_date = None \<and> start_date = None"
    using that docs by (simp add: st')
  from i existing docs st' found same show ?thesis
    by auto
qed

theorem update_changes_supplied_fields_only_witness:
  "snd (update_announcement example_env example_db ''507f1f77bcf86cd799439011''
          (Some ''Exam Monday'') None None ''t1'')
     = example_db\<lparr>announcements_collection :=
         [updated_document (Some ''Exam Monday'') None None example_announcement]\<rparr>
   \<and> updated_document (Some ''Exam Monday'') None None example_announcement ''message''
       = Some (Str ''Exam Monday'')
   \<and> updated_document (Some ''Exam Monday'') None None example_announcement ''created_by''
       = Some (Str ''t1'')
   \<and> updated_document (Some ''Exam Monday'') None None example_announcement ''start_date''
       = Some (Str ''2030-06-01T00:00:00Z'')"
proof -
  let ?u = "updated_document (Some ''Exam Monday'') None None example_announcement"
  have call: "update_announcement example_env example_db ''507f1f77bcf86cd799439011''
          (Some ''Exam Monday'') None None ''t1''
        = (Inr (serialize_announcement example_env ?u),
           example_db\<lparr>announcements_collection := [?u]\<rparr>)"
    using update_existing_at [of example_db "[]" example_announcement "[]" example_env
        "Oid 24912482966938930280208240657" None "[]" None "[]" "Some ''Exam Monday''"]
    by (simp add: update_announcement_found [OF example_teacher example_ObjectId(1) example_found]
          example_docs example_id expiration_fields_def start_fields_def message_fields_def
          final_value_def example_fields example_parse)
  from update_changes_supplied_fields_only [OF call]
  have "teachers_collection (example_db\<lparr>announcements_collection := [?u]\<rparr>)
          = teachers_collection example_db"
    by blast
  then show ?thesis
    by (simp add: call updated_document_def example_fields)
qed

section \<open>Removing the start date\<close>

text \<open>
  C2, as the code has it. The handler validates a supplied \<^verbatim>\<open>expiration_date\<close> before
  it looks at \<^verbatim>\<open>start_date\<close>, so an update with the empty string as \<^verbatim>\<open>start_date\<close> and
  an expiration date that does not parse ends with \<open>InvalidDate\<close> and removes nothing:
\<close>

theorem empty_start_date_after_invalid_expiration:
  "fst (update_announcement example_env example_db ''507f1f77bcf86cd799439011''
          None (Some ''bad'') (Some []) ''t1'') = Inl InvalidDate
   \<and> projr (get_announcement example_env
         (snd (update_announcement example_env example_db ''507f1f77bcf86cd799439011''
                 None (Some ''bad'') (Some []) ''t1''))
         ''507f1f77bcf86cd799439011'') ''start_date''
       = Some (Str ''2030-06-01T00:00:00Z'')"
proof -
  have call: "update_announcement example_env example_db ''507f1f77bcf86cd799439011''
          None (Some ''bad'') (Some []) ''t1'' = (Inl InvalidDate, example_db)"
    by (simp add: update_announcement_found [OF example_teacher example_ObjectId(1) example_found]
          update_existing_def expiration_fields_def example_parse)
  have "get_announcement example_env example_db ''507f1f77bcf86cd799439011''
          = Inr (serialize_announcement example_env example_announcement)"
    by (simp add: get_announcement_def example_ObjectId example_found)
  then show ?thesis
    by (simp add: call serialize_other example_fields)
qed

text \<open>
  C2, amended. For every update call with the empty string as \<^verbatim>\<open>start_date\<close>, on a
  stored announcement and by an existing teacher, whose \<^verbatim>\<open>expiration_date\<close> is not
  supplied or parses: whatever the call returns, a get of the same identifier on the
  store it leaves shows no \<^verbatim>\<open>start_date\<close>. The removal is made at once, so it stays
  also when the final check of the date order then fails the call.
\<close>

theorem empty_start_date_removes_field:
  assumes teacher: "teacher_exists st teacher_username"
      and i: "ObjectId env announcement_id = Some i"
      and stored: "announcement_exists st i"
      and expiration: "case expiration_date of None \<Rightarrow> True | Some e \<Rightarrow> parse_date env e \<noteq> None"
  shows "\<exists>d. get_announcement env
              (snd (update_announcement env st announcement_id message expiration_date (Some [])
                      teacher_username))
              announcement_id = Inr d
           \<and> d ''start_date'' = None"
proof -
  from stored obtain existing
    where existing: "find_one env (announcements_collection st) (by_id i) = Some existing"
    using announcement_exists_found by blast
  then obtain pre post where docs: "announcements_collection st = pre @ existing # post"
    and pre: "list_all (\<lambda>x. \<not> matches env x (by_id i)) pre"
    and ex: "matches env existing (by_id i)"
    using find_one_split by blast
  from expiration obtain ef where ef: "expiration_fields env expiration_date = Some ef"
    by (auto simp: expiration_fields_def split: option.splits)
  have sf: "start_fields env (Some []) = Some []"
    by (simp add: start_fields_def)
  let ?call = "update_announcement env st announcement_id message expiration_date (Some [])
                 teacher_username"
  let ?removed = "existing(''start_date'' := None)"
  let ?updated = "updated_document message expiration_date (Some []) existing"
  have call: "?call = update_existing env st i existing message expiration_date (Some [])"
    by (rule update_announcement_found [OF teacher i existing])
  have "snd ?call = st\<lparr>announcements_collection := pre @ ?removed # post\<rparr>
      \<or> snd ?call = st\<lparr>announcements_collection := pre @ ?updated # post\<rparr>"
    unfolding call update_existing_at [OF docs pre ex ef sf]
    by (simp split: option.splits)
  then obtain d where d: "announcements_collection (snd ?call) = pre @ d # post"
    and start: "d ''start_date'' = None" and id: "d ''_id'' = existing ''_id''"
    by (auto simp: updated_document_def)
  from id ex have "matches env d (by_id i)"
    by simp
  then have "get_announcement env (snd ?call) announcement_id = Inr (serialize_announcement env d)"
    by (rule get_announcement_at [OF i d pre])
  moreover have "serialize_announcement env d ''start_date'' = None"
    using start by (simp add: serialize_other)
  ultimately show ?thesis
    by blast
qed

text \<open>
  The example call moves the expiration date before the start date that is being
  removed: it is refused, and the start date is gone.
\<close>

theorem empty_start_date_removes_field_witness:
  "teacher_exists example_db ''t1''
   \<and> announcement_exists example_db (Oid 24912482966938930280208240657)
   \<and> fst (update_announcement example_env example_db ''507f1f77bcf86cd799439011''
             (Some ''Exam Monday'') (Some ''2030-01-01T00:00:00Z'') (Some []) ''t1'')
       = Inl InvalidDateOrder
   \<and> \<not> isl (get_announcement example_env
         (snd (update_announcement example_env example_db ''507f1f77bcf86cd799439011''
                 (Some ''Exam Monday'') (Some ''2030-01-01T00:00:00Z'') (Some []) ''t1''))
         ''507f1f77bcf86cd799439011'')
   \<and> projr (get_announcement example_env
         (snd (update_announcement example_env example_db ''507f1f77bcf86cd799439011''
                 (Some ''Exam Monday'') (Some ''2030-01-01T00:00:00Z'') (Some []) ''t1''))
         ''507f1f77bcf86cd799439011'') ''start_date'' = None"
proof -
  have stored: "announcement_exists example_db (Oid 24912482966938930280208240657)"
    by (simp add: announcement_exists_def example_db_def example_id)
  have expiration: "case Some ''2030-01-01T00:00:00Z'' of None \<Rightarrow> True
                    | Some e \<Rightarrow> parse_date example_env e \<noteq> None"
    by (simp add: example_parse)
  have refused: "fst (update_announcement example_env example_db ''507f1f77bcf86cd799439011''
             (Some ''Exam Monday'') (Some ''2030-01-01T00:00:00Z'') (Some []) ''t1'')
       = Inl InvalidDateOrder"
    using update_existing_at [of example_db "[]" example_announcement "[]" example_env
        "Oid 24912482966938930280208240657" "Some ''2030-01-01T00:00:00Z''"
        "[(''expiration_date'', Str ''2030-01-01T00:00:00Z'')]" "Some []" "[]"
        "Some ''Exam Monday''"]
    by (simp add: update_announcement_found [OF example_teacher example_ObjectId(1) example_found]
          example_docs example_id expiration_fields_def start_fields_def message_fields_def
          final_value_def example_fields example_parse)
  from empty_start_date_removes_field [OF example_teacher example_ObjectId(1) stored expiration,
      of "Some ''Exam Monday''"]
  show ?thesis
    using example_teacher stored refused by auto
qed

section \<open>The final check of the date order\<close>

text \<open>
  C1. The claim takes the effective start date of an update with the empty string as
  \<^verbatim>\<open>start_date\<close> to be absent, so that the final check does not fail. The handler
  computes \<^verbatim>\<open>final_start\<close> from \<open>existing\<close>, the dict it read before the \<^verbatim>\<open>$unset\<close>,
  and so checks the new expiration date against the start date it has just removed. On
  the example announcement (start 1 June 2030, expiration 1 January 2031), removing the
  start date and moving the expiration to 1 January 2030 is refused with
  \<open>InvalidDateOrder\<close>, the start date removed and the expiration date unchanged; the
  check on the effective values of the claim (no start date) raises nothing.
\<close>

theorem final_check_uses_removed_start_date:
  "update_announcement example_env example_db ''507f1f77bcf86cd799439011''
     None (Some ''2030-01-01T00:00:00Z'') (Some []) ''t1''
     = (Inl InvalidDateOrder,
        example_db\<lparr>announcements_collection := [example_announcement(''start_date'' := None)]\<rparr>)
   \<and> date_order_check example_env None (Some (Str ''2030-01-01T00:00:00Z'')) = None"
  using update_existing_at [of example_db "[]" example_announcement "[]" example_env
      "Oid 24912482966938930280208240657" "Some ''2030-01-01T00:00:00Z''"
      "[(''expiration_date'', Str ''2030-01-01T00:00:00Z'')]" "Some []" "[]" None]
  by (simp add: update_announcement_found [OF example_teacher example_ObjectId(1) example_found]
        example_docs example_id expiration_fields_def start_fields_def message_fields_def
        final_value_def example_fields example_parse)

section \<open>Facts about the create handler\<close>

lemma create_announcement_teacher:
  assumes "teacher_exists st teacher_username"
  shows "create_announcement env st message expiration_date start_date teacher_username now new_id
         = (case validate_dates env expiration_date start_date of
              Some e \<Rightarrow> (Inl e, st)
            | None \<Rightarrow>
                (case insert_one (announcements_collection st)
                        (new_announcement env message expiration_date start_date teacher_username now)
                        new_id of
                   None \<Rightarrow> (Inl Unhandled, st)
                 | Some docs \<Rightarrow>
                     (Inr ((new_announcement env message expiration_date start_date
                              teacher_username now)
                           (''_id'' \<mapsto> ObjId new_id, ''id'' \<mapsto> Str (str_ObjectId env new_id))),
                      st\<lparr>announcements_collection := docs\<rparr>)))"
  using find_teacher_Some [OF assms, of env]
  by (auto simp: create_announcement_def Let_def split: option.splits)


lemma create_announcement_success:
  assumes "create_announcement env st message expiration_date start_date teacher_username now new_id
             = (Inr created, st')"
  shows "validate_dates env expiration_date start_date = None
       \<and> list_all (\<lambda>x. \<not> matches env x (by_id new_id)) (announcements_collection st)
       \<and> announcements_collection st'
           = announcements_collection st
             @ (new_announcement env message expiration_date start_date teacher_username now)
                 (''_id'' \<mapsto> ObjId new_id) # []
       \<and> teachers_collection st' = teachers_collection st
       \<and> created = (new_announcement env message expiration_date start_date teacher_username now)
                     (''_id'' \<mapsto> ObjId new_id, ''id'' \<mapsto> Str (str_ObjectId env new_id))"
  using assms
  by (auto simp: create_announcement_def insert_one_def Let_def list_all_iff list_ex_iff
           split: option.splits if_splits)

lemma example_create:
  "create_announcement example_env example_db message expiration_date start_date ''t1'' now
     (Oid 24912452986661892666266509546)
   = (case validate_dates example_env expiration_date start_date of
        Some e \<Rightarrow> (Inl e, example_db)
      | None \<Rightarrow>
          (Inr ((new_announcement example_env message expiration_date start_date ''t1'' now)
                (''_id'' \<mapsto> ObjId (Oid 24912452986661892666266509546),
                 ''id'' \<mapsto> Str ''507f191e810c19729de860ea'')),
           example_db\<lparr>announcements_collection :=
             [example_announcement,
              (new_announcement example_env message expiration_date start_date ''t1'' now)
                (''_id'' \<mapsto> ObjId (Oid 24912452986661892666266509546))]\<rparr>))"
  by (subst create_announcement_teacher [OF example_teacher])
     (simp add: insert_one_def example_db_def example_id example_str_ObjectId
        split: option.splits)

section \<open>The date checks of create\<close>




section \<open>Create, then get\<close>

text \<open>
  C9. After a create call that succeeds, a get of the returned \<^verbatim>\<open>id\<close> (which
  \<^verbatim>\<open>ObjectId\<close> reads back as the assigned identifier) returns a document with exactly
  these fields: \<^verbatim>\<open>message\<close> and \<^verbatim>\<open>expiration_date\<close> as the strings given, character
  for character; \<^verbatim>\<open>start_date\<close> present exactly when a start date was supplied, and then
  the string given; \<^verbatim>\<open>created_by\<close> the teacher's username; \<^verbatim>\<open>created_at\<close> the time of
  the call in ISO format; and \<^verbatim>\<open>id\<close> the identifier as a string, with \<^verbatim>\<open>_id\<close>
  removed. The empty string is no date: the handler takes it for a start date that was
  not supplied, and the document then has no \<^verbatim>\<open>start_date\<close>.
\<close>

theorem create_then_get:
  assumes created: "create_announcement env st message expiration_date start_date teacher_username
                      now new_id = (Inr created, st')"
      and roundtrip: "ObjectId env (str_ObjectId env new_id) = Some new_id"
  shows "created ''id'' = Some (Str (str_ObjectId env new_id))
       \<and> (\<exists>d. get_announcement env st' (str_ObjectId env new_id) = Inr d
              \<and> d ''message'' = Some (Str message)
              \<and> d ''expiration_date'' = Some (Str expiration_date)
              \<and> d ''start_date''
                  = (case start_date of None \<Rightarrow> None
                     | Some s \<Rightarrow> if s = [] then None else Some (Str s))
              \<and> (start_date \<noteq> Some [] \<longrightarrow> d ''start_date'' = map_option Str start_date)
              \<and> d ''created_by'' = Some (Str teacher_username)
              \<and> d ''created_at'' = Some (Str (isoformat env now))
              \<and> d ''id'' = Some (Str (str_ObjectId env new_id))
              \<and> d ''_id'' = None
              \<and> dom d = {''message'', ''expiration_date'', ''created_by'', ''created_at'', ''id''}
                          \<union> (case start_date of None \<Rightarrow> {}
                              | Some s \<Rightarrow> if s = [] then {} else {''start_date''}))"
proof -
  let ?a = "new_announcement env message expiration_date start_date teacher_username now"
  let ?stored = "?a(''_id'' \<mapsto> ObjId new_id)"
  note c = create_announcement_success [OF created]
  from c have docs: "announcements_collection st' = announcements_collection st @ ?stored # []"
    and pre: "list_all (\<lambda>x. \<not> matches env x (by_id new_id)) (announcements_collection st)"
    by simp_all
  have "matches env ?stored (by_id new_id)"
    by simp
  then have got: "get_announcement env st' (str_ObjectId env new_id)
                   = Inr (serialize_announcement env ?stored)"
    by (rule get_announcement_at [OF roundtrip docs pre])
  let ?d = "serialize_announcement env ?stored"
  have d: "?d = (?a(''id'' \<mapsto> Str (str_ObjectId env new_id)))(''_id'' := None)"
    by (simp add: serialize_announcement_def fun_eq_iff)
  have fields: "?d ''message'' = Some (Str message)"
    "?d ''expiration_date'' = Some (Str expiration_date)"
    "?d ''start_date'' = (case start_date of None \<Rightarrow> None
                     | Some s \<Rightarrow> if s = [] then None else Some (Str s))"
    "start_date \<noteq> Some [] \<longrightarrow> ?d ''start_date'' = map_option Str start_date"
    "?d ''created_by'' = Some (Str teacher_username)"
    "?d ''created_at'' = Some (Str (isoformat env now))"
    "?d ''id'' = Some (Str (str_ObjectId env new_id))"
    "?d ''_id'' = None"
    unfolding d by (simp_all add: new_announcement_def Let_def split: option.splits)
  have dom: "dom ?d = {''message'', ''expiration_date'', ''created_by'', ''created_at'', ''id''}
                          \<union> (case start_date of None \<Rightarrow> {}
                              | Some s \<Rightarrow> if s = [] then {} else {''start_date''})"
    unfolding d by (auto simp: new_announcement_def Let_def split: option.splits if_splits)
  from c have "created ''id'' = Some (Str (str_ObjectId env new_id))"
    by simp
  with got fields dom show ?thesis
    by blast
qed

theorem create_then_get_witness:
  "ObjectId example_env (str_ObjectId example_env (Oid 24912452986661892666266509546))
     = Some (Oid 24912452986661892666266509546)
   \<and> \<not> isl (fst (create_announcement example_env example_db ''Science fair''
                 ''2031-01-01T00:00:00Z'' (Some ''2030-06-01T00:00:00Z'') ''t1''
                 (Naive 1793750401500000) (Oid 24912452986661892666266509546)))
   \<and> projr (get_announcement example_env
         (snd (create_announcement example_env example_db ''Science fair''
                 ''2031-01-01T00:00:00Z'' (Some ''2030-06-01T00:00:00Z'') ''t1''
                 (Naive 1793750401500000) (Oid 24912452986661892666266509546)))
         ''507f191e810c19729de860ea'') ''start_date'' = Some (Str ''2030-06-01T00:00:00Z'')
   \<and> projr (get_announcement example_env
         (snd (create_announcement example_env example_db ''Science fair''
                 ''2031-01-01T00:00:00Z'' (Some ''2030-06-01T00:00:00Z'') ''t1''
                 (Naive 1793750401500000) (Oid 24912452986661892666266509546)))
         ''507f191e810c19729de860ea'') ''message'' = Some (Str ''Science fair'')"
proof -
  let ?a = "new_announcement example_env ''Science fair'' ''2031-01-01T00:00:00Z''
              (Some ''2030-06-01T00:00:00Z'') ''t1'' (Naive 1793750401500000)"
  have roundtrip:
    "ObjectId example_env (str_ObjectId example_env (Oid 24912452986661892666266509546))
       = Some (Oid 24912452986661892666266509546)"
    by (simp add: example_str_ObjectId example_ObjectId)
  have call: "create_announcement example_env example_db ''Science fair''
                 ''2031-01-01T00:00:00Z'' (Some ''2030-06-01T00:00:00Z'') ''t1''
                 (Naive 1793750401500000) (Oid 24912452986661892666266509546)
     = (Inr (?a(''_id'' \<mapsto> ObjId (Oid 24912452986661892666266509546),
                ''id'' \<mapsto> Str ''507f191e810c19729de860ea'')),
        example_db\<lparr>announcements_collection :=
          [example_announcement, ?a(''_id'' \<mapsto> ObjId (Oid 24912452986661892666266509546))]\<rparr>)"
    by (simp add: example_create validate_dates_def example_parse)
  let ?st' = "example_db\<lparr>announcements_collection :=
          [example_announcement, ?a(''_id'' \<mapsto> ObjId (Oid 24912452986661892666266509546))]\<rparr>"
  from create_then_get [OF call roundtrip]
  obtain d where got: "get_announcement example_env ?st'
                         (str_ObjectId example_env (Oid 24912452986661892666266509546)) = Inr d"
    and message: "d ''message'' = Some (Str ''Science fair'')"
    and start: "d ''start_date'' = (case Some ''2030-06-01T00:00:00Z'' of None \<Rightarrow> None
                     | Some s \<Rightarrow> if s = [] then None else Some (Str s))"
    by blast
  from got have "get_announcement example_env ?st' ''507f191e810c19729de860ea'' = Inr d"
    by (simp only: example_str_ObjectId)
  with message start roundtrip show ?thesis
    by (simp add: call)
qed

section \<open>Listing the active announcements\<close>

text \<open>
  Create and update store the dates as the strings they were given, while the filter of
  \<^verbatim>\<open>get_announcements\<close> hands the engine a date to compare the stored values with. Under
  an engine that does not order text against a date, no document whose expiration date
  is text matches the filter, at any time.
\<close>

lemma text_expiration_never_matches:
  assumes "bson_compare env (Str e) now = None"
      and "d ''expiration_date'' = Some (Str e)"
  shows "\<not> matches env d (active_query now)"
  using assms by (simp add: active_query_def)

text \<open>
  C7. The claim has the listing with \<^verbatim>\<open>active_only\<close> return exactly the announcements
  whose start date is absent or not after \<open>now\<close> and whose expiration date is not before
  \<open>now\<close>. With the engine of the example, which orders dates against dates only, the
  handler does not: an announcement created on 4 November 2026 with no start date and an
  expiration date of 1 January 2031 is stored and is active at that time, and the
  listing with \<^verbatim>\<open>active_only\<close> is empty.
\<close>

theorem active_listing_misses_created_announcement:
  "list_ex (is_active example_env (Naive 1793750401500000))
     (announcements_collection
        (snd (create_announcement example_env (example_db\<lparr>announcements_collection := []\<rparr>)
                ''Exam Friday'' ''2031-01-01T00:00:00Z'' None ''t1'' (Naive 1793750401500000)
                (Oid 24912452986661892666266509546))))
   \<and> get_announcements example_env
        (snd (create_announcement example_env (example_db\<lparr>announcements_collection := []\<rparr>)
                ''Exam Friday'' ''2031-01-01T00:00:00Z'' None ''t1'' (Naive 1793750401500000)
                (Oid 24912452986661892666266509546)))
        True (Naive 1793750401500000) = []"
proof -
  let ?st = "example_db\<lparr>announcements_collection := []\<rparr>"
  let ?a = "(new_announcement example_env ''Exam Friday'' ''2031-01-01T00:00:00Z'' None ''t1''
               (Naive 1793750401500000))
            (''_id'' \<mapsto> ObjId (Oid 24912452986661892666266509546))"
  have teacher: "teacher_exists ?st ''t1''"
    using example_teacher by (simp add: teacher_exists_def)
  have call: "snd (create_announcement example_env ?st ''Exam Friday'' ''2031-01-01T00:00:00Z''
                     None ''t1'' (Naive 1793750401500000) (Oid 24912452986661892666266509546))
              = ?st\<lparr>announcements_collection := [?a]\<rparr>"
    by (subst create_announcement_teacher [OF teacher])
       (simp add: validate_dates_def example_parse insert_one_def)
  have fields: "?a ''start_date'' = None"
    "?a ''expiration_date'' = Some (Str ''2031-01-01T00:00:00Z'')"
    by (simp_all add: new_announcement_def)
  have active: "is_active example_env (Naive 1793750401500000) ?a"
    unfolding is_active_def fields by (simp add: example_parse)
  have "bson_compare example_env (Str ''2031-01-01T00:00:00Z'') (Naive 1793750401500000) = None"
    by (simp add: example_env_def)
  then have "\<not> matches example_env ?a (active_query (Naive 1793750401500000))"
    using fields(2) by (rule text_expiration_never_matches)
  then have "get_announcements example_env (?st\<lparr>announcements_collection := [?a]\<rparr>) True
               (Naive 1793750401500000) = []"
    by (simp add: get_announcements_def find_docs_def sort_descending_def)
  with active show ?thesis
    unfolding call by simp
qed

section \<open>The invariant of the stored dates\<close>

lemma dt_ge_False: "dt_ge a b = Some False \<Longrightarrow> dt_lt a b = Some True"
  by (cases a; cases b) auto

lemma dates_checked_invariant: "dates_checked env d \<Longrightarrow> date_invariant env d"
  by (auto simp: dates_checked_def date_invariant_def split: option.splits)

lemma date_order_check_None:
  assumes "date_order_check env (Some sv) (Some ev) = None"
      and "truthy (Some sv)" and "truthy (Some ev)"
  shows "parsed_before env sv ev"
  using assms
  by (cases sv; cases ev) (auto simp: dt_ge_False split: option.splits if_splits)

lemma created_dates_checked:
  assumes empty: "fromisoformat env [] = None"
      and valid: "validate_dates env expiration_date start_date = None"
  shows "dates_checked env
           ((new_announcement env message expiration_date start_date teacher_username now)
              (''_id'' \<mapsto> ObjId new_id))"
proof -
  have e: "parse_date env [] = None"
    using empty by (simp add: parse_date_def)
  from valid e have ne: "expiration_date \<noteq> []"
    by (auto simp: validate_dates_def)
  from valid ne show ?thesis
    by (auto simp: validate_dates_def dates_checked_def new_announcement_def dt_ge_False
             split: option.splits if_splits)
qed


lemma final_values:
  assumes "expiration_fields env expiration_date = Some ef"
      and "start_fields env start_date = Some sf"
  shows "final_value (message_fields message @ ef @ sf) existing ''start_date''
           = (case start_date of
                None \<Rightarrow> existing ''start_date''
              | Some s \<Rightarrow> if s = [] then existing ''start_date'' else Some (Str s))"
    and "final_value (message_fields message @ ef @ sf) existing ''expiration_date''
           = (case expiration_date of
                None \<Rightarrow> existing ''expiration_date''
              | Some e \<Rightarrow> Some (Str e))"
  unfolding expiration_fields_Some [OF assms(1)] start_fields_Some [OF assms(2)]
    message_fields_def final_value_def
  by (cases message; cases expiration_date; cases start_date; simp)+

lemma removed_dates_checked:
  "dates_checked env existing \<Longrightarrow> dates_checked env (existing(''start_date'' := None))"
  by (simp add: dates_checked_def split: option.splits)

lemma updated_dates_checked:
  assumes empty: "fromisoformat env [] = None"
      and ok: "dates_checked env existing"
      and ef: "expiration_fields env expiration_date = Some ef"
      and sf: "start_fields env start_date = Some sf"
      and check: "date_order_check env
                    (final_value (message_fields message @ ef @ sf) existing ''start_date'')
                    (final_value (message_fields message @ ef @ sf) existing ''expiration_date'')
                  = None"
  shows "dates_checked env (updated_document message expiration_date start_date existing)"
proof -
  let ?u = "updated_document message expiration_date start_date existing"
  have e: "parse_date env [] = None"
    using empty by (simp add: parse_date_def)
  from ok obtain ev0 where ev0: "existing ''expiration_date'' = Some ev0"
    by (auto simp: dates_checked_def split: option.splits)
  define ev where "ev = (case expiration_date of None \<Rightarrow> ev0 | Some x \<Rightarrow> Str x)"
  have u_exp: "?u ''expiration_date'' = Some ev"
    by (simp add: updated_document_def ev_def ev0 split: option.splits)
  have ev_ok: "truthy (Some ev) \<and> (case parse_field env ev of Inl x \<Rightarrow> False | Inr t \<Rightarrow> True)"
  proof (cases expiration_date)
    case None
    with ok ev0 show ?thesis
      by (simp add: ev_def dates_checked_def)
  next
    case (Some x)
    with ef e show ?thesis
      by (auto simp: ev_def expiration_fields_def split: option.splits)
  qed
  have final_exp: "final_value (message_fields message @ ef @ sf) existing ''expiration_date''
                     = Some ev"
    by (simp add: final_values(2) [OF ef sf] ev_def ev0 split: option.splits)
  have start_ok: "truthy (Some sv) \<and> parsed_before env sv ev" if sv: "?u ''start_date'' = Some sv" for sv
  proof -
    from sv have ns: "start_date \<noteq> Some []"
      by (auto simp: updated_document_def)
    then have final_start: "final_value (message_fields message @ ef @ sf) existing ''start_date''
                              = Some sv"
      using sv by (auto simp: final_values(1) [OF ef sf] updated_document_def split: option.splits)
    have t: "truthy (Some sv)"
    proof (cases start_date)
      case None
      with ok sv show ?thesis
        by (auto simp: updated_document_def dates_checked_def split: option.splits)
    next
      case (Some x)
      with sv ns show ?thesis
        by (auto simp: updated_document_def)
    qed
    from check have "date_order_check env (Some sv) (Some ev) = None"
      by (simp only: final_start final_exp)
    with t ev_ok show ?thesis
      by (simp add: date_order_check_None)
  qed
  show ?thesis
    unfolding dates_checked_def u_exp
    using ev_ok start_ok by (auto split: option.splits)
qed

lemma update_keeps_dates_checked:
  assumes empty: "fromisoformat env [] = None"
      and ok: "dates_checked env d"
      and i: "ObjectId env announcement_id = Some i"
      and d: "find_one env (announcements_collection st) (by_id i) = Some d"
      and call: "update_announcement env st announcement_id message expiration_date start_date
                   teacher_username = (r, st')"
      and d': "find_one env (announcements_collection st') (by_id i) = Some d'"
  shows "dates_checked env d'"
proof (cases "st' = st")
  case True
  with d d' ok show ?thesis by simp
next
  case False
  with call obtain j existing where "ObjectId env announcement_id = Some j"
    and "find_one env (announcements_collection st) (by_id j) = Some existing"
    and "update_existing env st j existing message expiration_date start_date = (r, st')"
    using update_announcement_changes [of env st announcement_id message expiration_date start_date
        teacher_username r st']
    by blast
  with i d have upd: "update_existing env st i d message expiration_date start_date = (r, st')"
    by simp
  with False obtain ef sf where ef: "expiration_fields env expiration_date = Some ef"
    and sf: "start_fields env start_date = Some sf"
    using update_existing_changes [of env st i d message expiration_date start_date r st']
    by blast
  from d obtain pre post where docs: "announcements_collection st = pre @ d # post"
    and pre: "list_all (\<lambda>x. \<not> matches env x (by_id i)) pre"
    and ex: "matches env d (by_id i)"
    using find_one_split by blast
  let ?check = "date_order_check env
                  (final_value (message_fields message @ ef @ sf) d ''start_date'')
                  (final_value (message_fields message @ ef @ sf) d ''expiration_date'')"
  let ?removed = "d(''start_date'' := None)"
  let ?updated = "updated_document message expiration_date start_date d"
  note at = update_existing_at [OF docs pre ex ef sf, of message]
  show ?thesis
  proof (cases ?check)
    case None
    with upd at have "st' = st\<lparr>announcements_collection := pre @ ?updated # post\<rparr>"
      by simp
    moreover have "matches env ?updated (by_id i)"
      using ex by simp
    ultimately have "d' = ?updated"
      using d' find_one_at [OF pre, of ?updated post] by simp
    with updated_dates_checked [OF empty ok ef sf None] show ?thesis
      by simp
  next
    case (Some e)
    with upd at False have "st' = st\<lparr>announcements_collection := pre @ ?removed # post\<rparr>"
      by (simp split: if_splits)
    moreover have "matches env ?removed (by_id i)"
      using ex by simp
    ultimately have "d' = ?removed"
      using d' find_one_at [OF pre, of ?removed post] by simp
    with removed_dates_checked [OF ok] show ?thesis
      by simp
  qed
qed

lemma reachable_dates_checked:
  assumes "fromisoformat env [] = None"
  shows "reachable_document env d \<Longrightarrow> dates_checked env d"
proof (induction rule: reachable_document.induct)
  case (created st message expiration_date start_date teacher_username now new_id r st' d)
  note c = create_announcement_success [OF created(1)]
  let ?stored = "(new_announcement env message expiration_date start_date teacher_username now)
                   (''_id'' \<mapsto> ObjId new_id)"
  from c have docs: "announcements_collection st' = announcements_collection st @ ?stored # []"
    and pre: "list_all (\<lambda>x. \<not> matches env x (by_id new_id)) (announcements_collection st)"
    and valid: "validate_dates env expiration_date start_date = None"
    by simp_all
  have "matches env ?stored (by_id new_id)"
    by simp
  then have "find_one env (announcements_collection st @ ?stored # []) (by_id new_id) = Some ?stored"
    by (rule find_one_at [OF pre])
  with created(2) docs have stored: "d = ?stored"
    by simp
  have "dates_checked env ?stored"
    by (rule created_dates_checked [OF assms valid])
  then show ?case
    by (simp only: stored)
next
  case (updated d announcement_id i st message expiration_date start_date teacher_username r st' d')
  from update_keeps_dates_checked [OF assms updated.IH updated.hyps(2,3,4,5)] show ?case .
qed

text \<open>
  C5. Every document stored by a create call that succeeded, and every document that
  update calls (successful or not) leave of such a document, satisfies the invariant: if
  \<^verbatim>\<open>start_date\<close> and \<^verbatim>\<open>expiration_date\<close> are both present, both parse and the parsed
  start date is strictly earlier than the parsed expiration date. The environment is any
  in which \<^verbatim>\<open>fromisoformat\<close> rejects the empty string, as Python's does.
\<close>

theorem stored_dates_in_order:
  assumes "fromisoformat env [] = None"
      and "reachable_document env d"
  shows "date_invariant env d"
  using assms by (simp add: reachable_dates_checked dates_checked_invariant)

text \<open>
  The example creates an announcement and then moves its expiration date to 1 January
  2031.
\<close>

theorem stored_dates_in_order_witness:
  "fromisoformat example_env [] = None
   \<and> reachable_document example_env
        (updated_document None (Some ''2031-01-01T00:00:00Z'') None example_created)
   \<and> updated_document None (Some ''2031-01-01T00:00:00Z'') None example_created ''start_date''
       = Some (Str ''2030-01-01T00:00:00Z'')
   \<and> updated_document None (Some ''2031-01-01T00:00:00Z'') None example_created
         ''expiration_date'' = Some (Str ''2031-01-01T00:00:00Z'')
   \<and> date_invariant example_env
        (updated_document None (Some ''2031-01-01T00:00:00Z'') None example_created)"
proof -
  let ?i = "Oid 24912452986661892666266509546"
  let ?st = "example_db\<lparr>announcements_collection := [example_announcement, example_created]\<rparr>"
  let ?d = "updated_document None (Some ''2031-01-01T00:00:00Z'') None example_created"
  have empty: "fromisoformat example_env [] = None"
    by (simp add: example_env_def)
  have id: "example_created ''_id'' = Some (ObjId ?i)"
    by (simp add: example_created_def)
  have fields: "example_created ''start_date'' = Some (Str ''2030-01-01T00:00:00Z'')"
    "example_created ''expiration_date'' = Some (Str ''2030-06-01T00:00:00Z'')"
    by (simp_all add: example_created_def new_announcement_def)
  have create: "create_announcement example_env example_db ''Science fair''
                  ''2030-06-01T00:00:00Z'' (Some ''2030-01-01T00:00:00Z'') ''t1''
                  (Naive 1793750401500000) ?i
                = (Inr (example_created(''id'' \<mapsto> Str ''507f191e810c19729de860ea'')), ?st)"
    by (simp add: example_create validate_dates_def example_parse example_created_def)
  have pre: "list_all (\<lambda>x. \<not> matches example_env x (by_id ?i)) [example_announcement]"
    by (simp add: example_id)
  have ex: "matches example_env example_created (by_id ?i)"
    by (simp add: id)
  have docs: "announcements_collection ?st = [example_announcement] @ example_created # []"
    by simp
  have found: "find_one example_env (announcements_collection ?st) (by_id ?i) = Some example_created"
    using find_one_at [OF pre ex, of "[]"] by simp
  have teacher: "teacher_exists ?st ''t1''"
    using example_teacher by (simp add: teacher_exists_def)
  have ef: "expiration_fields example_env (Some ''2031-01-01T00:00:00Z'')
              = Some [(''expiration_date'', Str ''2031-01-01T00:00:00Z'')]"
    by (simp add: expiration_fields_def example_parse)
  have sf: "start_fields example_env None = Some []"
    by (simp add: start_fields_def)
  have update: "update_announcement example_env ?st ''507f191e810c19729de860ea'' None
                  (Some ''2031-01-01T00:00:00Z'') None ''t1''
                = (Inr (serialize_announcement example_env ?d),
                   ?st\<lparr>announcements_collection := [example_announcement] @ ?d # []\<rparr>)"
    unfolding update_announcement_found [OF teacher example_ObjectId(2) found]
      update_existing_at [OF docs pre ex ef sf]
    by (simp add: final_value_def message_fields_def fields example_parse)
  have "matches example_env ?d (by_id ?i)"
    by (simp add: id)
  then have found': "find_one example_env
        (announcements_collection
           (?st\<lparr>announcements_collection := [example_announcement] @ ?d # []\<rparr>)) (by_id ?i)
      = Some ?d"
    using find_one_at [OF pre, of ?d "[]"] by simp
  have "reachable_document example_env example_created"
    by (rule reachable_document.created [OF create found])
  then have reachable: "reachable_document example_env ?d"
    by (rule reachable_document.updated [OF _ example_ObjectId(2) found update found'])
  from stored_dates_in_order [OF empty reachable] empty reachable show ?thesis
    by (simp add: updated_document_def fields)
qed

end
